theory Spec2Isabelle
  imports Main "HOL-Library.Word"
begin

unbundle bit_operations_syntax

section \<open>Handles and device calls\<close>

text \<open>
  The Vulkan object handles (\<^verbatim>\<open>VkBuffer\<close>, \<^verbatim>\<open>VkImage\<close>, ...) are declared
  in the Vulkan headers, which VulkanContext.h only includes. They are opaque 64-bit
  values; nothing in VulkanContext.h looks inside one.
\<close>

type_synonym handle = "64 word"
type_synonym VkDescriptorPool = handle
type_synonym VkShaderModule = handle
type_synonym VkBuffer = handle
type_synonym VkBufferView = handle
type_synonym VkImage = handle
type_synonym VkImageView = handle
type_synonym VkDeviceMemory = handle
type_synonym VkSampler = handle
type_synonym VkPipelineCache = handle
type_synonym VkCommandBuffer = handle
type_synonym VkFence = handle

text \<open>
  The calls the code makes on the device and on the presentation engine. The first nine
  are the destroy entry points \<^verbatim>\<open>PerformDeletes\<close> calls (the \<^verbatim>\<open>device\<close> and the
  \<^verbatim>\<open>nullptr\<close> allocator arguments are the same in every call and are left out); the
  others are the calls of the frame cycle.
\<close>

datatype device_call =
    vkDestroyDescriptorPool VkDescriptorPool
  | vkDestroyShaderModule VkShaderModule
  | vkDestroyBuffer VkBuffer
  | vkDestroyBufferView VkBufferView
  | vkDestroyImage VkImage
  | vkDestroyImageView VkImageView
  | vkFreeMemory VkDeviceMemory
  | vkDestroySampler VkSampler
  | vkDestroyPipelineCache VkPipelineCache
  | vkWaitForFences VkFence
  | vkResetFences VkFence
  | vkAcquireNextImage
  | vkQueueSubmit "VkCommandBuffer list" VkFence
  | vkQueuePresent "32 word"

text \<open>
  A fence on the device is signaled, unsignaled (reset and attached to no submission), or
  pending (attached to a submission the GPU has not finished).
\<close>

datatype fence_state = Signaled | Unsignaled | Pending

text \<open>
  The device, as far as the code can observe it: the calls made on it so far, in order,
  and the state of each fence.
\<close>

record VkDevice =
  calls :: "device_call list"
  fences :: "VkFence \<Rightarrow> fence_state"

definition vk :: "device_call \<Rightarrow> VkDevice \<Rightarrow> VkDevice" where
  "vk c device = device\<lparr>calls := calls device @ [c]\<rparr>"

section \<open>VulkanDeleteList\<close>

text \<open>
  The members keep their names without the trailing underscore, which a name cannot end
  with here: \<^verbatim>\<open>descPools_\<close> is \<open>descPools\<close>, and so on.
\<close>

record VulkanDeleteList =
  descPools :: "VkDescriptorPool list"
  modules :: "VkShaderModule list"
  buffers :: "VkBuffer list"
  bufferViews :: "VkBufferView list"
  images :: "VkImage list"
  imageViews :: "VkImageView list"
  deviceMemory :: "VkDeviceMemory list"
  samplers :: "VkSampler list"
  pipelineCaches :: "VkPipelineCache list"

definition QueueDeleteDescriptorPool :: "VkDescriptorPool \<Rightarrow> VulkanDeleteList \<Rightarrow> VulkanDeleteList" where
  "QueueDeleteDescriptorPool pool dl = dl\<lparr>descPools := descPools dl @ [pool]\<rparr>"

definition QueueDeleteShaderModule :: "VkShaderModule \<Rightarrow> VulkanDeleteList \<Rightarrow> VulkanDeleteList" where
  "QueueDeleteShaderModule module dl = dl\<lparr>modules := modules dl @ [module]\<rparr>"

definition QueueDeleteBuffer :: "VkBuffer \<Rightarrow> VulkanDeleteList \<Rightarrow> VulkanDeleteList" where
  "QueueDeleteBuffer buffer dl = dl\<lparr>buffers := buffers dl @ [buffer]\<rparr>"

definition QueueDeleteBufferView :: "VkBufferView \<Rightarrow> VulkanDeleteList \<Rightarrow> VulkanDeleteList" where
  "QueueDeleteBufferView bufferView dl = dl\<lparr>bufferViews := bufferViews dl @ [bufferView]\<rparr>"

definition QueueDeleteImage :: "VkImage \<Rightarrow> VulkanDeleteList \<Rightarrow> VulkanDeleteList" where
  "QueueDeleteImage img dl = dl\<lparr>images := images dl @ [img]\<rparr>"

definition QueueDeleteImageView :: "VkImageView \<Rightarrow> VulkanDeleteList \<Rightarrow> VulkanDeleteList" where
  "QueueDeleteImageView imageView dl = dl\<lparr>imageViews := imageViews dl @ [imageView]\<rparr>"

definition QueueDeleteDeviceMemory :: "VkDeviceMemory \<Rightarrow> VulkanDeleteList \<Rightarrow> VulkanDeleteList" where
  "QueueDeleteDeviceMemory mem dl = dl\<lparr>deviceMemory := deviceMemory dl @ [mem]\<rparr>"

definition QueueDeleteSampler :: "VkSampler \<Rightarrow> VulkanDeleteList \<Rightarrow> VulkanDeleteList" where
  "QueueDeleteSampler sampler dl = dl\<lparr>samplers := samplers dl @ [sampler]\<rparr>"

definition QueueDeletePipelineCache :: "VkPipelineCache \<Rightarrow> VulkanDeleteList \<Rightarrow> VulkanDeleteList" where
  "QueueDeletePipelineCache pipelineCache dl = dl\<lparr>pipelineCaches := pipelineCaches dl @ [pipelineCache]\<rparr>"

datatype error = AssertionFailed | FenceTimeout

text \<open>
  \<^verbatim>\<open>Take\<close> has two objects in hand, \<^verbatim>\<open>this\<close> and \<^verbatim>\<open>del\<close>, and changes both; the
  model returns the pair. Each \<^verbatim>\<open>assert\<close> is a branch that ends the call (the header
  undefines \<^verbatim>\<open>NDEBUG\<close> on Android to keep them). A vector that was the source of
  \<^verbatim>\<open>std::move\<close> into an empty vector is left empty (the destination takes over its
  storage).
\<close>

definition Take :: "VulkanDeleteList \<Rightarrow> VulkanDeleteList \<Rightarrow> error + (VulkanDeleteList \<times> VulkanDeleteList)" where
  "Take self del =
    (if length (descPools self) \<noteq> 0 then Inl AssertionFailed
     else if length (modules self) \<noteq> 0 then Inl AssertionFailed
     else if length (buffers self) \<noteq> 0 then Inl AssertionFailed
     else if length (bufferViews self) \<noteq> 0 then Inl AssertionFailed
     else if length (images self) \<noteq> 0 then Inl AssertionFailed
     else if length (imageViews self) \<noteq> 0 then Inl AssertionFailed
     else if length (deviceMemory self) \<noteq> 0 then Inl AssertionFailed
     else if length (samplers self) \<noteq> 0 then Inl AssertionFailed
     else if length (pipelineCaches self) \<noteq> 0 then Inl AssertionFailed
     else Inr
       (self\<lparr>descPools := descPools del,
             modules := modules del,
             buffers := buffers del,
             bufferViews := bufferViews del,
             images := images del,
             imageViews := imageViews del,
             deviceMemory := deviceMemory del,
             samplers := samplers del,
             pipelineCaches := pipelineCaches del\<rparr>,
        del\<lparr>descPools := [],
            modules := [],
            buffers := [],
            bufferViews := [],
            images := [],
            imageViews := [],
            deviceMemory := [],
            samplers := [],
            pipelineCaches := []\<rparr>))"

text \<open>One range-for loop of \<^verbatim>\<open>PerformDeletes\<close>: the call \<open>f\<close> on each element, first to last.\<close>

definition destroy_each :: "(handle \<Rightarrow> device_call) \<Rightarrow> handle list \<Rightarrow> VkDevice \<Rightarrow> VkDevice" where
  "destroy_each f hs device = foldl (\<lambda>d h. vk (f h) d) device hs"

definition PerformDeletes :: "VkDevice \<Rightarrow> VulkanDeleteList \<Rightarrow> VulkanDeleteList \<times> VkDevice" where
  "PerformDeletes device dl =
    (let d1 = destroy_each vkDestroyDescriptorPool (descPools dl) device;
         l1 = dl\<lparr>descPools := []\<rparr>;
         d2 = destroy_each vkDestroyShaderModule (modules l1) d1;
         l2 = l1\<lparr>modules := []\<rparr>;
         d3 = destroy_each vkDestroyBuffer (buffers l2) d2;
         l3 = l2\<lparr>buffers := []\<rparr>;
         d4 = destroy_each vkDestroyBufferView (bufferViews l3) d3;
         l4 = l3\<lparr>bufferViews := []\<rparr>;
         d5 = destroy_each vkDestroyImage (images l4) d4;
         l5 = l4\<lparr>images := []\<rparr>;
         d6 = destroy_each vkDestroyImageView (imageViews l5) d5;
         l6 = l5\<lparr>imageViews := []\<rparr>;
         d7 = destroy_each vkFreeMemory (deviceMemory l6) d6;
         l7 = l6\<lparr>deviceMemory := []\<rparr>;
         d8 = destroy_each vkDestroySampler (samplers l7) d7;
         l8 = l7\<lparr>samplers := []\<rparr>;
         d9 = destroy_each vkDestroyPipelineCache (pipelineCaches l8) d8;
         l9 = l8\<lparr>pipelineCaches := []\<rparr>
     in (l9, d9))"

subsection \<open>Object kinds\<close>

text \<open>
  The nine kinds of object a delete list holds, the member that holds each, the
  \<^verbatim>\<open>QueueDelete...\<close> method that fills it, and the device call \<^verbatim>\<open>PerformDeletes\<close>
  makes on its elements. These name the members so that a statement can range over them.
\<close>

datatype kind =
    DescriptorPool | ShaderModule | Buffer | BufferView | Image | ImageView
  | DeviceMemory | Sampler | PipelineCache

fun bucket :: "kind \<Rightarrow> VulkanDeleteList \<Rightarrow> handle list" where
  "bucket DescriptorPool dl = descPools dl"
| "bucket ShaderModule dl = modules dl"
| "bucket Buffer dl = buffers dl"
| "bucket BufferView dl = bufferViews dl"
| "bucket Image dl = images dl"
| "bucket ImageView dl = imageViews dl"
| "bucket DeviceMemory dl = deviceMemory dl"
| "bucket Sampler dl = samplers dl"
| "bucket PipelineCache dl = pipelineCaches dl"

fun QueueDelete :: "kind \<Rightarrow> handle \<Rightarrow> VulkanDeleteList \<Rightarrow> VulkanDeleteList" where
  "QueueDelete DescriptorPool = QueueDeleteDescriptorPool"
| "QueueDelete ShaderModule = QueueDeleteShaderModule"
| "QueueDelete Buffer = QueueDeleteBuffer"
| "QueueDelete BufferView = QueueDeleteBufferView"
| "QueueDelete Image = QueueDeleteImage"
| "QueueDelete ImageView = QueueDeleteImageView"
| "QueueDelete DeviceMemory = QueueDeleteDeviceMemory"
| "QueueDelete Sampler = QueueDeleteSampler"
| "QueueDelete PipelineCache = QueueDeletePipelineCache"

fun destroy_call :: "kind \<Rightarrow> handle \<Rightarrow> device_call" where
  "destroy_call DescriptorPool = vkDestroyDescriptorPool"
| "destroy_call ShaderModule = vkDestroyShaderModule"
| "destroy_call Buffer = vkDestroyBuffer"
| "destroy_call BufferView = vkDestroyBufferView"
| "destroy_call Image = vkDestroyImage"
| "destroy_call ImageView = vkDestroyImageView"
| "destroy_call DeviceMemory = vkFreeMemory"
| "destroy_call Sampler = vkDestroySampler"
| "destroy_call PipelineCache = vkDestroyPipelineCache"

text \<open>The kind and the handle a destroy call is made on; \<open>None\<close> for the other calls.\<close>

fun destroy_target :: "device_call \<Rightarrow> (kind \<times> handle) option" where
  "destroy_target (vkDestroyDescriptorPool h) = Some (DescriptorPool, h)"
| "destroy_target (vkDestroyShaderModule h) = Some (ShaderModule, h)"
| "destroy_target (vkDestroyBuffer h) = Some (Buffer, h)"
| "destroy_target (vkDestroyBufferView h) = Some (BufferView, h)"
| "destroy_target (vkDestroyImage h) = Some (Image, h)"
| "destroy_target (vkDestroyImageView h) = Some (ImageView, h)"
| "destroy_target (vkFreeMemory h) = Some (DeviceMemory, h)"
| "destroy_target (vkDestroySampler h) = Some (Sampler, h)"
| "destroy_target (vkDestroyPipelineCache h) = Some (PipelineCache, h)"
| "destroy_target (vkWaitForFences f) = None"
| "destroy_target (vkResetFences f) = None"
| "destroy_target vkAcquireNextImage = None"
| "destroy_target (vkQueueSubmit cmds f) = None"
| "destroy_target (vkQueuePresent i) = None"

text \<open>The calls of a trace that destroy an object of kind \<open>k\<close>, as the handles destroyed.\<close>

definition destroyed_of :: "kind \<Rightarrow> device_call \<Rightarrow> handle list" where
  "destroyed_of k c =
     (case destroy_target c of None \<Rightarrow> [] | Some (k', h) \<Rightarrow> if k' = k then [h] else [])"

definition destroyed :: "kind \<Rightarrow> device_call list \<Rightarrow> handle list" where
  "destroyed k cs = concat (map (destroyed_of k) cs)"

definition kinds :: "kind list" where
  "kinds = [DescriptorPool, ShaderModule, Buffer, BufferView, Image, ImageView,
     DeviceMemory, Sampler, PipelineCache]"

text \<open>A sequence of \<^verbatim>\<open>QueueDelete...\<close> calls on one list, in the order of the calls.\<close>

definition enqueue_all :: "(kind \<times> handle) list \<Rightarrow> VulkanDeleteList \<Rightarrow> VulkanDeleteList" where
  "enqueue_all es dl = foldl (\<lambda>l e. QueueDelete (fst e) (snd e) l) dl es"

text \<open>A default-constructed \<^verbatim>\<open>VulkanDeleteList\<close>: every vector empty.\<close>

definition empty_list :: VulkanDeleteList where
  "empty_list = \<lparr>descPools = [], modules = [], buffers = [], bufferViews = [],
     images = [], imageViews = [], deviceMemory = [], samplers = [], pipelineCaches = []\<rparr>"

section \<open>The frame counter and the slot it selects\<close>

text \<open>
  \<^verbatim>\<open>curFrame_\<close> is an \<^verbatim>\<open>int\<close>: 32 bits, and \<^verbatim>\<open>curFrame_ & 1\<close> reads its lowest bit.
  \<^verbatim>\<open>frame_\<close> is an array of two \<^verbatim>\<open>FrameData\<close>.
\<close>

definition cur_slot :: "32 word \<Rightarrow> nat" where
  "cur_slot curFrame = unat (curFrame AND 1)"

section \<open>The frame cycle\<close>

text \<open>
  \<^verbatim>\<open>VulkanContext::FrameData\<close> and the members of \<^verbatim>\<open>VulkanContext\<close> that the frame
  cycle reads or writes. \<^verbatim>\<open>frame_\<close> is an array of two elements, a list of length 2
  here. The member \<open>state\<close> is not in the header.

  Modelled from the spec: \<open>cycle_state\<close> and the member \<open>state\<close> are the states of the
  state machine of section 4.3.
\<close>

record FrameData =
  fence :: VkFence
  hasInitCommands :: bool
  cmdInit :: VkCommandBuffer
  cmdBuf :: VkCommandBuffer
  deleteList :: VulkanDeleteList

datatype cycle_state = Idle | Acquiring | Recording | Submitted | Presented

record VulkanContext =
  device :: VkDevice
  frame :: "FrameData list"
  curFrame :: "32 word"
  globalDeleteList :: VulkanDeleteList
  current_buffer :: "32 word"
  cmdQueue :: "VkCommandBuffer list"
  state :: cycle_state

text \<open>\<^verbatim>\<open>return frame_[curFrame_ & 1].cmdBuf;\<close>\<close>

definition GetSurfaceCommandBuffer :: "VulkanContext \<Rightarrow> VkCommandBuffer" where
  "GetSurfaceCommandBuffer s = cmdBuf (frame s ! cur_slot (curFrame s))"

text \<open>
  A delete request from anywhere in the program: \<^verbatim>\<open>Delete()\<close> returns
  \<^verbatim>\<open>globalDeleteList_\<close>, and the caller calls one of its \<^verbatim>\<open>QueueDelete...\<close> methods.
\<close>

definition Delete_QueueDelete :: "kind \<Rightarrow> handle \<Rightarrow> VulkanContext \<Rightarrow> VulkanContext" where
  "Delete_QueueDelete k h s = s\<lparr>globalDeleteList := QueueDelete k h (globalDeleteList s)\<rparr>"

text \<open>
  Modelled from the spec: \<^verbatim>\<open>CreateFence\<close> is declared in VulkanContext.h and defined
  elsewhere. It creates a fence, signaled from the start when \<open>presignalled\<close> is set;
  \<open>f\<close> is the handle the device gives the new fence.
\<close>

definition CreateFence :: "bool \<Rightarrow> VkFence \<Rightarrow> VkDevice \<Rightarrow> VkDevice" where
  "CreateFence presignalled f dev =
     dev\<lparr>fences := (fences dev)(f := (if presignalled then Signaled else Unsignaled))\<rparr>"

text \<open>
  Modelled from the spec: the constructor and the \<^verbatim>\<open>Init...\<close> functions are declared in
  VulkanContext.h and defined elsewhere. The context as created (spec, sections 3 and
  4.2): frame counter 0, both slots with a pre-signaled fence, a render command buffer
  and an empty delete list, nothing pending, state Idle. \<open>f0\<close>, \<open>f1\<close> are the handles
  of the two fences and \<open>c0\<close>, \<open>c1\<close> those of the two command buffers.
\<close>

definition new_context :: "VkFence \<Rightarrow> VkFence \<Rightarrow> VkCommandBuffer \<Rightarrow> VkCommandBuffer \<Rightarrow> VulkanContext" where
  "new_context f0 f1 c0 c1 =
    \<lparr>device = CreateFence True f1 (CreateFence True f0 \<lparr>calls = [], fences = (\<lambda>f. Unsignaled)\<rparr>),
     frame = [\<lparr>fence = f0, hasInitCommands = False, cmdInit = 0, cmdBuf = c0, deleteList = empty_list\<rparr>,
              \<lparr>fence = f1, hasInitCommands = False, cmdInit = 0, cmdBuf = c1, deleteList = empty_list\<rparr>],
     curFrame = 0,
     globalDeleteList = empty_list,
     current_buffer = 0,
     cmdQueue = [],
     state = Idle\<rparr>"

text \<open>
  Modelled from the spec: \<^verbatim>\<open>WaitAndResetFence\<close> is declared in VulkanContext.h and
  defined elsewhere. Spec, section 4.3: block on the fence; a wait that does not see the
  fence signaled is a time-out and fatal; on success reset the fence for reuse. The GPU
  runs beside the program: a completion that arrives while the call blocks is a
  \<open>GpuComplete\<close> step (below) before the call.
\<close>

definition WaitAndResetFence :: "VkFence \<Rightarrow> VkDevice \<Rightarrow> error + VkDevice" where
  "WaitAndResetFence f dev =
    (if fences dev f = Signaled
     then Inr ((vk (vkResetFences f) (vk (vkWaitForFences f) dev))\<lparr>fences := (fences dev)(f := Unsignaled)\<rparr>)
     else Inl FenceTimeout)"

text \<open>
  Modelled from the spec: the answer of the presentation engine to the request for the
  next image (section 6): an image index, or the signal that the swapchain is stale.
\<close>

datatype acquire_result = Acquired "32 word" | OutOfDate

text \<open>
  Modelled from the spec: what begin-render hands its caller (sections 4.3 and 7): the
  command buffer with the image index, or the condition that the swapchain must be
  rebuilt.
\<close>

datatype begin_result = Started VkCommandBuffer "32 word" | NeedsSwapchainRebuild

text \<open>
  Modelled from the spec: \<^verbatim>\<open>BeginSurfaceRenderPass\<close> is declared in VulkanContext.h and
  defined elsewhere. Spec, section 4.3, begin render: select the slot \<open>counter mod 2\<close>;
  wait for its fence and reset it; drain the slot's delete list; absorb the global list
  into it; request the next image, and on a stale swapchain return that condition rather
  than proceeding; otherwise begin recording and return the slot's command buffer with
  the image index.

  The spec hands the global list over here, after the drain. The comment on
  \<^verbatim>\<open>globalDeleteList_\<close> in VulkanContext.h hands it over at the end of the frame. The
  flag \<open>at_end\<close> selects the second placement; what is proved of the cycle is proved for
  both.
\<close>

definition BeginSurfaceRenderPass ::
  "bool \<Rightarrow> acquire_result \<Rightarrow> VulkanContext \<Rightarrow> error + (begin_result \<times> VulkanContext)" where
  "BeginSurfaceRenderPass at_end acq s =
    (let i = cur_slot (curFrame s); fr = frame s ! i in
     case WaitAndResetFence (fence fr) (device s) of
       Inl e \<Rightarrow> Inl e
     | Inr d1 \<Rightarrow>
        (let (l1, d2) = PerformDeletes d1 (deleteList fr) in
         case (if at_end then Inr (l1, globalDeleteList s) else Take l1 (globalDeleteList s)) of
           Inl e \<Rightarrow> Inl e
         | Inr (l2, g) \<Rightarrow>
            (let s1 = s\<lparr>device := vk vkAcquireNextImage d2,
                        frame := (frame s)[i := fr\<lparr>deleteList := l2\<rparr>],
                        globalDeleteList := g\<rparr> in
             case acq of
               OutOfDate \<Rightarrow> Inr (NeedsSwapchainRebuild, s1\<lparr>state := Idle\<rparr>)
             | Acquired idx \<Rightarrow>
                 Inr (Started (cmdBuf fr) idx, s1\<lparr>current_buffer := idx, state := Recording\<rparr>))))"

text \<open>
  Modelled from the spec: \<^verbatim>\<open>EndSurfaceRenderPass\<close> is declared in VulkanContext.h and
  defined elsewhere. Spec, sections 4.2, 4.3 and 7: end-render without a matching
  begin-render fails an assertion; otherwise the batch is the one-time command buffer if
  the slot's flag is set (the flag is then cleared), the buffers queued before the
  render pass in the order queued, and the slot's render command buffer last; the batch
  is submitted with the slot's fence as its completion signal, the acquired image is
  presented, and the frame counter is incremented. The call does not wait for the GPU.
\<close>

definition EndSurfaceRenderPass :: "bool \<Rightarrow> VulkanContext \<Rightarrow> error + VulkanContext" where
  "EndSurfaceRenderPass at_end s =
    (if state s \<noteq> Recording then Inl AssertionFailed
     else
      (let i = cur_slot (curFrame s); fr = frame s ! i;
           cmdBufs = (if hasInitCommands fr then [cmdInit fr] else []) @ cmdQueue s @ [cmdBuf fr];
           d1 = (vk (vkQueueSubmit cmdBufs (fence fr)) (device s))
                  \<lparr>fences := (fences (device s))(fence fr := Pending)\<rparr>;
           d2 = vk (vkQueuePresent (current_buffer s)) d1 in
       case (if at_end then Take (deleteList fr) (globalDeleteList s)
             else Inr (deleteList fr, globalDeleteList s)) of
         Inl e \<Rightarrow> Inl e
       | Inr (l, g) \<Rightarrow>
           Inr (s\<lparr>device := d2,
                  frame := (frame s)[i := fr\<lparr>hasInitCommands := False, deleteList := l\<rparr>],
                  globalDeleteList := g,
                  cmdQueue := [],
                  curFrame := curFrame s + 1,
                  state := Idle\<rparr>)))"

text \<open>
  Modelled from the spec: \<^verbatim>\<open>QueueBeforeSurfaceRender\<close> is declared in VulkanContext.h
  and defined elsewhere; \<^verbatim>\<open>cmdQueue_\<close> is the member it fills.
\<close>

definition QueueBeforeSurfaceRender :: "VkCommandBuffer \<Rightarrow> VulkanContext \<Rightarrow> VulkanContext" where
  "QueueBeforeSurfaceRender cmd s = s\<lparr>cmdQueue := cmdQueue s @ [cmd]\<rparr>"

text \<open>
  Modelled from the spec: the GPU works beside the program (sections 1 and 5). When it
  finishes the submission a fence is attached to, the fence becomes signaled.
\<close>

definition gpu_complete :: "VkFence \<Rightarrow> VkDevice \<Rightarrow> VkDevice" where
  "gpu_complete f dev =
     (if fences dev f = Pending then dev\<lparr>fences := (fences dev)(f := Signaled)\<rparr> else dev)"

text \<open>
  Modelled from the spec: what happens to a context, one step at a time: the calls of the
  single submitting thread (section 6: enqueue-delete, begin-render, end-render,
  queue-before-render) and the completions of the GPU, in any order. A run stops at the
  first error.
\<close>

datatype op =
    EnqueueDelete kind handle
  | BeginRender acquire_result
  | EndRender
  | QueueBeforeRender VkCommandBuffer
  | GpuComplete VkFence

fun step :: "bool \<Rightarrow> op \<Rightarrow> VulkanContext \<Rightarrow> error + VulkanContext" where
  "step at_end (EnqueueDelete k h) s = Inr (Delete_QueueDelete k h s)"
| "step at_end (BeginRender acq) s =
     (case BeginSurfaceRenderPass at_end acq s of Inl e \<Rightarrow> Inl e | Inr (r, s') \<Rightarrow> Inr s')"
| "step at_end EndRender s = EndSurfaceRenderPass at_end s"
| "step at_end (QueueBeforeRender cmd) s = Inr (QueueBeforeSurfaceRender cmd s)"
| "step at_end (GpuComplete f) s = Inr (s\<lparr>device := gpu_complete f (device s)\<rparr>)"

fun run :: "bool \<Rightarrow> op list \<Rightarrow> VulkanContext \<Rightarrow> error + VulkanContext" where
  "run at_end [] s = Inr s"
| "run at_end (x # xs) s =
     (case step at_end x s of Inl e \<Rightarrow> Inl e | Inr s' \<Rightarrow> run at_end xs s')"

text \<open>
  The device after the first steps of begin-render on a fence \<open>f\<close> found signaled and a
  delete list \<open>dl\<close>: the wait, the reset, and the calls of \<^verbatim>\<open>PerformDeletes\<close>.
\<close>

definition drained :: "VkFence \<Rightarrow> VulkanDeleteList \<Rightarrow> VkDevice \<Rightarrow> VkDevice" where
  "drained f dl dev = snd (PerformDeletes
      ((vk (vkResetFences f) (vk (vkWaitForFences f) dev))\<lparr>fences := (fences dev)(f := Unsignaled)\<rparr>) dl)"

text \<open>The device after the submission and the presentation of end-render.\<close>

definition submitted :: "VulkanContext \<Rightarrow> VkDevice" where
  "submitted s =
    (let fr = frame s ! cur_slot (curFrame s) in
     vk (vkQueuePresent (current_buffer s))
       ((vk (vkQueueSubmit ((if hasInitCommands fr then [cmdInit fr] else []) @ cmdQueue s @ [cmdBuf fr])
              (fence fr)) (device s))
          \<lparr>fences := (fences (device s))(fence fr := Pending)\<rparr>))"



section \<open>Traces\<close>




section \<open>Invariants of the frame cycle\<close>





section \<open>Properties of the delete list\<close>

lemma calls_vk: "calls (vk c d) = calls d @ [c]"
  by (simp add: vk_def)

lemma fences_vk: "fences (vk c d) = fences d"
  by (simp add: vk_def)

lemma calls_destroy_each: "calls (destroy_each f hs d) = calls d @ map f hs"
  unfolding destroy_each_def by (induction hs arbitrary: d) (simp_all add: calls_vk)

lemma fences_destroy_each: "fences (destroy_each f hs d) = fences d"
  unfolding destroy_each_def by (induction hs arbitrary: d) (simp_all add: fences_vk)

lemma calls_PerformDeletes:
  "calls (snd (PerformDeletes dev dl)) = calls dev
     @ map vkDestroyDescriptorPool (descPools dl)
     @ map vkDestroyShaderModule (modules dl)
     @ map vkDestroyBuffer (buffers dl)
     @ map vkDestroyBufferView (bufferViews dl)
     @ map vkDestroyImage (images dl)
     @ map vkDestroyImageView (imageViews dl)
     @ map vkFreeMemory (deviceMemory dl)
     @ map vkDestroySampler (samplers dl)
     @ map vkDestroyPipelineCache (pipelineCaches dl)"
  by (simp add: PerformDeletes_def Let_def calls_destroy_each)

lemma fences_PerformDeletes: "fences (snd (PerformDeletes dev dl)) = fences dev"
  by (simp add: PerformDeletes_def Let_def fences_destroy_each)

lemma fst_PerformDeletes: "fst (PerformDeletes dev dl) = empty_list"
  by (simp add: PerformDeletes_def Let_def empty_list_def)

lemma bucket_empty_list: "bucket k empty_list = []"
  by (cases k) (simp_all add: empty_list_def)

lemma destroyed_append: "destroyed k (xs @ ys) = destroyed k xs @ destroyed k ys"
  by (simp add: destroyed_def)

lemma destroyed_Nil: "destroyed k [] = []"
  by (simp add: destroyed_def)

lemma destroyed_Cons: "destroyed k (c # cs) = destroyed_of k c @ destroyed k cs"
  by (simp add: destroyed_def)

lemma destroy_target_destroy_call: "destroy_target (destroy_call k h) = Some (k, h)"
  by (cases k) simp_all

lemma destroy_target_Some: "destroy_target c = Some (k, h) \<longleftrightarrow> c = destroy_call k h"
proof
  assume "destroy_target c = Some (k, h)"
  then show "c = destroy_call k h"
    by (cases c) auto
qed (simp add: destroy_target_destroy_call)

lemma destroyed_of_destroy_call: "destroyed_of k (destroy_call k' h) = (if k' = k then [h] else [])"
  by (simp add: destroyed_of_def destroy_target_destroy_call)

lemma destroyed_map_destroy_call:
  "destroyed k (map (destroy_call k') hs) = (if k = k' then hs else [])"
  by (induction hs) (auto simp add: destroyed_Nil destroyed_Cons destroyed_of_destroy_call)

lemma Take_Inl: "bucket k self \<noteq> [] \<Longrightarrow> Take self del = Inl AssertionFailed"
  by (cases k) (simp_all add: Take_def)

lemma Take_Inr:
  assumes "\<forall>k. bucket k self = []"
  shows "\<exists>self' del'. Take self del = Inr (self', del') \<and>
           (\<forall>k. bucket k self' = bucket k self @ bucket k del) \<and> (\<forall>k. bucket k del' = [])"
proof -
  have e: "descPools self = []" "modules self = []" "buffers self = []" "bufferViews self = []"
    "images self = []" "imageViews self = []" "deviceMemory self = []" "samplers self = []"
    "pipelineCaches self = []"
    using assms [rule_format, of DescriptorPool] assms [rule_format, of ShaderModule]
      assms [rule_format, of Buffer] assms [rule_format, of BufferView]
      assms [rule_format, of Image] assms [rule_format, of ImageView]
      assms [rule_format, of DeviceMemory] assms [rule_format, of Sampler]
      assms [rule_format, of PipelineCache] by simp_all
  have "\<And>k. bucket k (self\<lparr>descPools := descPools del,
             modules := modules del,
             buffers := buffers del,
             bufferViews := bufferViews del,
             images := images del,
             imageViews := imageViews del,
             deviceMemory := deviceMemory del,
             samplers := samplers del,
             pipelineCaches := pipelineCaches del\<rparr>) = bucket k self @ bucket k del"
    subgoal for k by (cases k) (simp_all add: e) done
  moreover have "\<And>k. bucket k (del\<lparr>descPools := [],
            modules := [],
            buffers := [],
            bufferViews := [],
            images := [],
            imageViews := [],
            deviceMemory := [],
            samplers := [],
            pipelineCaches := []\<rparr>) = []"
    subgoal for k by (cases k) simp_all done
  ultimately show ?thesis
    by (simp add: Take_def e)
qed

lemma Take_empty_list: "Take empty_list del = Inr (del, empty_list)"
  by (simp add: Take_def empty_list_def)

lemma bucket_QueueDelete:
  "bucket k' (QueueDelete k h dl) = (if k' = k then bucket k dl @ [h] else bucket k' dl)"
  by (cases k; cases k')
     (simp_all add: QueueDeleteDescriptorPool_def QueueDeleteShaderModule_def
        QueueDeleteBuffer_def QueueDeleteBufferView_def QueueDeleteImage_def
        QueueDeleteImageView_def QueueDeleteDeviceMemory_def QueueDeleteSampler_def
        QueueDeletePipelineCache_def)

lemma new_calls:
  "calls (snd (PerformDeletes dev dl)) = calls dev
     @ map (destroy_call DescriptorPool) (bucket DescriptorPool dl)
     @ map (destroy_call ShaderModule) (bucket ShaderModule dl)
     @ map (destroy_call Buffer) (bucket Buffer dl)
     @ map (destroy_call BufferView) (bucket BufferView dl)
     @ map (destroy_call Image) (bucket Image dl)
     @ map (destroy_call ImageView) (bucket ImageView dl)
     @ map (destroy_call DeviceMemory) (bucket DeviceMemory dl)
     @ map (destroy_call Sampler) (bucket Sampler dl)
     @ map (destroy_call PipelineCache) (bucket PipelineCache dl)"
  by (simp add: calls_PerformDeletes)

lemma destroyed_PerformDeletes:
  "destroyed k (calls (snd (PerformDeletes dev dl))) = destroyed k (calls dev) @ bucket k dl"
  unfolding new_calls destroyed_append destroyed_map_destroy_call
  by (cases k) simp_all

lemma count_destroy_call: "count_list cs (destroy_call k h) = count_list (destroyed k cs) h"
proof (induction cs)
  case Nil
  show ?case by (simp add: destroyed_Nil)
next
  case (Cons c cs)
  have "count_list (destroyed_of k c) h = (if c = destroy_call k h then 1 else 0)"
    using destroy_target_Some [of c k h]
    by (auto simp add: destroyed_of_def split: option.splits)
  with Cons show ?case by (simp add: destroyed_Cons)
qed

lemma bucket_enqueue_all:
  "bucket k (enqueue_all es dl) = bucket k dl @ map snd (filter (\<lambda>e. fst e = k) es)"
  unfolding enqueue_all_def
  by (induction es arbitrary: dl) (simp_all add: bucket_QueueDelete)





section \<open>Properties of the frame cycle\<close>

lemma PerformDeletes_eq: "PerformDeletes dev dl = (empty_list, snd (PerformDeletes dev dl))"
  using fst_PerformDeletes [of dev dl] by (cases "PerformDeletes dev dl") simp

lemma Begin_unfold:
  "BeginSurfaceRenderPass at_end acq s =
    (let i = cur_slot (curFrame s); fr = frame s ! i in
     if fences (device s) (fence fr) = Signaled
     then Inr (case acq of OutOfDate \<Rightarrow> NeedsSwapchainRebuild | Acquired idx \<Rightarrow> Started (cmdBuf fr) idx,
        s\<lparr>device := vk vkAcquireNextImage (drained (fence fr) (deleteList fr) (device s)),
          frame := (frame s)[i := fr\<lparr>deleteList := (if at_end then empty_list else globalDeleteList s)\<rparr>],
          globalDeleteList := (if at_end then globalDeleteList s else empty_list),
          current_buffer := (case acq of OutOfDate \<Rightarrow> current_buffer s | Acquired idx \<Rightarrow> idx),
          state := (case acq of OutOfDate \<Rightarrow> Idle | Acquired idx \<Rightarrow> Recording)\<rparr>)
     else Inl FenceTimeout)"
  unfolding BeginSurfaceRenderPass_def WaitAndResetFence_def Let_def drained_def
  apply (subst PerformDeletes_eq)
  apply (simp add: Take_empty_list split: acquire_result.splits)
  done

lemma calls_drained:
  "calls (drained f dl dev) = calls dev @ [vkWaitForFences f, vkResetFences f]
     @ map (destroy_call DescriptorPool) (bucket DescriptorPool dl)
     @ map (destroy_call ShaderModule) (bucket ShaderModule dl)
     @ map (destroy_call Buffer) (bucket Buffer dl)
     @ map (destroy_call BufferView) (bucket BufferView dl)
     @ map (destroy_call Image) (bucket Image dl)
     @ map (destroy_call ImageView) (bucket ImageView dl)
     @ map (destroy_call DeviceMemory) (bucket DeviceMemory dl)
     @ map (destroy_call Sampler) (bucket Sampler dl)
     @ map (destroy_call PipelineCache) (bucket PipelineCache dl)"
  unfolding drained_def new_calls by (simp add: calls_vk)

lemma fences_drained: "fences (drained f dl dev) = (fences dev)(f := Unsignaled)"
  unfolding drained_def by (simp add: fences_PerformDeletes)

lemma End_unfold:
  "EndSurfaceRenderPass at_end s =
    (let i = cur_slot (curFrame s); fr = frame s ! i in
     if state s \<noteq> Recording then Inl AssertionFailed
     else if at_end \<and> (\<exists>k. bucket k (deleteList fr) \<noteq> []) then Inl AssertionFailed
     else Inr (s\<lparr>device := submitted s,
          frame := (frame s)[i := fr\<lparr>hasInitCommands := False,
             deleteList := (if at_end then globalDeleteList s else deleteList fr)\<rparr>],
          globalDeleteList := (if at_end then empty_list else globalDeleteList s),
          cmdQueue := [],
          curFrame := curFrame s + 1,
          state := Idle\<rparr>))"
proof -
  let ?fr = "frame s ! cur_slot (curFrame s)"
  consider (a) "\<exists>k. bucket k (deleteList ?fr) \<noteq> []" | (b) "\<forall>k. bucket k (deleteList ?fr) = []"
    by blast
  then show ?thesis
  proof cases
    case a
    then obtain k where "bucket k (deleteList ?fr) \<noteq> []" by blast
    then have "Take (deleteList ?fr) (globalDeleteList s) = Inl AssertionFailed"
      by (rule Take_Inl)
    with a show ?thesis
      by (simp add: EndSurfaceRenderPass_def Let_def submitted_def)
  next
    case b
    have "deleteList ?fr = empty_list"
      using b [rule_format, of DescriptorPool] b [rule_format, of ShaderModule]
        b [rule_format, of Buffer] b [rule_format, of BufferView]
        b [rule_format, of Image] b [rule_format, of ImageView]
        b [rule_format, of DeviceMemory] b [rule_format, of Sampler]
        b [rule_format, of PipelineCache]
      by (cases "deleteList ?fr") (simp add: empty_list_def)
    then show ?thesis
      using b by (simp add: EndSurfaceRenderPass_def Let_def submitted_def Take_empty_list)
  qed
qed

lemma calls_submitted:
  "calls (submitted s) = calls (device s) @
     [vkQueueSubmit ((if hasInitCommands (frame s ! cur_slot (curFrame s))
                      then [cmdInit (frame s ! cur_slot (curFrame s))] else [])
                     @ cmdQueue s @ [cmdBuf (frame s ! cur_slot (curFrame s))])
        (fence (frame s ! cur_slot (curFrame s))),
      vkQueuePresent (current_buffer s)]"
  by (simp add: submitted_def Let_def calls_vk)

lemma fences_submitted:
  "fences (submitted s) = (fences (device s))(fence (frame s ! cur_slot (curFrame s)) := Pending)"
  by (simp add: submitted_def Let_def fences_vk)

lemma new_context_simps:
  "f0 \<noteq> f1 \<Longrightarrow> fences (device (new_context f0 f1 c0 c1)) f0 = Signaled"
  "fences (device (new_context f0 f1 c0 c1)) f1 = Signaled"
  "calls (device (new_context f0 f1 c0 c1)) = []"
  "frame (new_context f0 f1 c0 c1) =
     [\<lparr>fence = f0, hasInitCommands = False, cmdInit = 0, cmdBuf = c0, deleteList = empty_list\<rparr>,
      \<lparr>fence = f1, hasInitCommands = False, cmdInit = 0, cmdBuf = c1, deleteList = empty_list\<rparr>]"
  "curFrame (new_context f0 f1 c0 c1) = 0"
  "globalDeleteList (new_context f0 f1 c0 c1) = empty_list"
  "cmdQueue (new_context f0 f1 c0 c1) = []"
  "state (new_context f0 f1 c0 c1) = Idle"
  by (simp_all add: new_context_def CreateFence_def)

lemma cur_slot_0: "cur_slot 0 = 0"
  by (simp add: cur_slot_def)









































section \<open>The claims about the delete list\<close>



text \<open>
  C3. \<^verbatim>\<open>PerformDeletes\<close> (drain) appends to the device's calls, for every kind and
  every handle, as many calls of that kind's destroy entry point on that handle as the
  list holds the handle in that kind's member; it makes no other call (the number of new
  calls is the number of elements held); and it leaves every member empty.
\<close>

theorem PerformDeletes_drain:
  "\<exists>new. calls (snd (PerformDeletes dev dl)) = calls dev @ new \<and>
      (\<forall>k h. count_list new (destroy_call k h) = count_list (bucket k dl) h) \<and>
      length new = sum_list (map (\<lambda>k. length (bucket k dl)) kinds) \<and>
      (\<forall>k. bucket k (fst (PerformDeletes dev dl)) = [])"
proof -
  let ?new = "map (destroy_call DescriptorPool) (bucket DescriptorPool dl)
     @ map (destroy_call ShaderModule) (bucket ShaderModule dl)
     @ map (destroy_call Buffer) (bucket Buffer dl)
     @ map (destroy_call BufferView) (bucket BufferView dl)
     @ map (destroy_call Image) (bucket Image dl)
     @ map (destroy_call ImageView) (bucket ImageView dl)
     @ map (destroy_call DeviceMemory) (bucket DeviceMemory dl)
     @ map (destroy_call Sampler) (bucket Sampler dl)
     @ map (destroy_call PipelineCache) (bucket PipelineCache dl)"
  have a: "calls (snd (PerformDeletes dev dl)) = calls dev @ ?new"
    by (rule new_calls)
  have d: "destroyed k ?new = bucket k dl" for k
    unfolding destroyed_append destroyed_map_destroy_call by (cases k) simp_all
  have b: "count_list ?new (destroy_call k h) = count_list (bucket k dl) h" for k h
    unfolding count_destroy_call d ..
  have c: "length ?new = sum_list (map (\<lambda>k. length (bucket k dl)) kinds)"
    by (simp add: kinds_def)
  have e: "bucket k (fst (PerformDeletes dev dl)) = []" for k
    by (simp add: fst_PerformDeletes bucket_empty_list)
  from a b c e show ?thesis by blast
qed

text \<open>
  C4. After any sequence of \<^verbatim>\<open>QueueDelete...\<close> calls on an empty list,
  \<^verbatim>\<open>PerformDeletes\<close> destroys the handles of each kind in the order in which the
  handles of that kind were queued.
\<close>

theorem PerformDeletes_fifo:
  "destroyed k (calls (snd (PerformDeletes dev (enqueue_all es empty_list))))
     = destroyed k (calls dev) @ map snd (filter (\<lambda>e. fst e = k) es)"
  by (simp add: destroyed_PerformDeletes bucket_enqueue_all bucket_empty_list)


text \<open>
  C6. Each \<^verbatim>\<open>QueueDelete...\<close> method appends its handle to the member of its kind and
  leaves the other eight members as they were. The method takes and returns the list
  alone: it makes no call on the device.
\<close>

theorem QueueDelete_appends:
  "bucket k' (QueueDelete k h dl) = (if k' = k then bucket k dl @ [h] else bucket k' dl)"
  by (rule bucket_QueueDelete)

text \<open>
  C10. When \<^verbatim>\<open>Take\<close> succeeds, every member of the source list is empty afterwards and
  the destination holds what the source held, so a later \<^verbatim>\<open>PerformDeletes\<close> on the
  source makes no call on the device: no handle is destroyed through both lists.
\<close>

theorem Take_empties_source:
  "Take self del = Inr (self', del') \<Longrightarrow>
     (\<forall>k. bucket k del' = []) \<and> (\<forall>k. bucket k self' = bucket k del) \<and>
     calls (snd (PerformDeletes dev del')) = calls dev"
proof -
  assume t: "Take self del = Inr (self', del')"
  have e: "\<forall>k. bucket k self = []"
  proof (rule ccontr)
    assume "\<not> (\<forall>k. bucket k self = [])"
    then obtain k where "bucket k self \<noteq> []" by blast
    from Take_Inl [OF this, of del] t show False by simp
  qed
  from Take_Inr [OF e, of del] t
  have b: "\<forall>k. bucket k self' = bucket k self @ bucket k del" and c: "\<forall>k. bucket k del' = []"
    by auto
  have "calls (snd (PerformDeletes dev del')) = calls dev"
    unfolding new_calls by (simp add: c)
  with b c e show ?thesis by simp
qed

theorem Take_empties_source_witness:
  "Take empty_list (QueueDeleteImage 9 empty_list) = Inr (QueueDeleteImage 9 empty_list, empty_list) \<and>
   (\<forall>k. bucket k empty_list = []) \<and>
   calls (snd (PerformDeletes \<lparr>calls = [], fences = (\<lambda>f. Signaled)\<rparr> empty_list)) = []"
proof -
  have t: "Take empty_list (QueueDeleteImage 9 empty_list) = Inr (QueueDeleteImage 9 empty_list, empty_list)"
    by (rule Take_empty_list)
  from Take_empties_source [OF t, of "\<lparr>calls = [], fences = (\<lambda>f. Signaled)\<rparr>"] t
  show ?thesis by simp
qed

section \<open>The claims about the frame cycle\<close>

lemmas run_eval = new_context_simps Begin_unfold End_unfold Let_def cur_slot_def
  calls_vk calls_drained calls_submitted fences_vk fences_drained fences_submitted
  bucket_empty_list bucket_empty_list [unfolded empty_list_def]
  Delete_QueueDelete_def QueueDeleteBuffer_def gpu_complete_def
  QueueBeforeSurfaceRender_def empty_list_def



text \<open>
  C7. When the presentation engine reports the swapchain out of date, begin-render
  returns nothing but the rebuild condition, the state afterwards is Idle (not Recording)
  and the frame counter is what it was; and it does return that condition whenever the
  fence of the slot is signaled.
\<close>

theorem BeginSurfaceRenderPass_stale:
  "(\<forall>r s'. BeginSurfaceRenderPass at_end OutOfDate s = Inr (r, s') \<longrightarrow>
      r = NeedsSwapchainRebuild \<and> state s' = Idle \<and> curFrame s' = curFrame s) \<and>
   (fences (device s) (fence (frame s ! cur_slot (curFrame s))) = Signaled \<longrightarrow>
      (\<exists>s'. BeginSurfaceRenderPass at_end OutOfDate s = Inr (NeedsSwapchainRebuild, s')))"
  by (auto simp add: Begin_unfold Let_def split: if_splits)

theorem BeginSurfaceRenderPass_stale_witness:
  "\<exists>s'. BeginSurfaceRenderPass False OutOfDate (new_context 1 2 3 4) = Inr (NeedsSwapchainRebuild, s') \<and>
      state s' = Idle \<and> curFrame s' = 0"
proof -
  let ?s = "new_context 1 2 3 4"
  have sig: "fences (device ?s) (fence (frame ?s ! cur_slot (curFrame ?s))) = Signaled"
    by (simp add: new_context_simps cur_slot_0)
  from BeginSurfaceRenderPass_stale [of False ?s] sig
  obtain s' where b: "BeginSurfaceRenderPass False OutOfDate ?s = Inr (NeedsSwapchainRebuild, s')"
    by blast
  from BeginSurfaceRenderPass_stale [of False ?s] b
  have "state s' = Idle \<and> curFrame s' = curFrame ?s"
    by blast
  with b show ?thesis
    by (auto simp add: new_context_simps)
qed




text \<open>
  C9. When two command buffers \<open>A\<close> and then \<open>B\<close> are queued before the surface render
  pass, end-render submits one batch with the fence of the current slot, and the batch
  ends with \<open>A\<close>, \<open>B\<close> and the slot's render command buffer, in this order. Before them
  stand only the slot's one-time command buffer, if its flag is set, and the buffers
  queued earlier, in the order queued. The queue is empty afterwards.
\<close>

theorem queued_before_render_order:
  "EndSurfaceRenderPass at_end (QueueBeforeSurfaceRender B (QueueBeforeSurfaceRender A s)) = Inr s' \<Longrightarrow>
   calls (device s') = calls (device s) @
     [vkQueueSubmit ((if hasInitCommands (frame s ! cur_slot (curFrame s))
                      then [cmdInit (frame s ! cur_slot (curFrame s))] else [])
                     @ cmdQueue s @ [A, B, GetSurfaceCommandBuffer s])
        (fence (frame s ! cur_slot (curFrame s))),
      vkQueuePresent (current_buffer s)] \<and>
   cmdQueue s' = []"
  by (auto simp add: End_unfold Let_def calls_submitted QueueBeforeSurfaceRender_def
        GetSurfaceCommandBuffer_def split: if_splits)

theorem queued_before_render_order_witness:
  "\<exists>s s'. run False [BeginRender (Acquired 0)] (new_context 1 2 3 4) = Inr s \<and>
      cmdQueue s = [] \<and>
      EndSurfaceRenderPass False (QueueBeforeSurfaceRender 11 (QueueBeforeSurfaceRender 10 s)) = Inr s' \<and>
      calls (device s') = calls (device s) @ [vkQueueSubmit [10, 11, 3] 1, vkQueuePresent 0]"
proof -
  have "\<exists>s. run False [BeginRender (Acquired 0)] (new_context 1 2 3 4) = Inr s \<and>
      cmdQueue s = [] \<and> state s = Recording \<and> curFrame s = 0 \<and> current_buffer s = 0 \<and>
      frame s ! 0 = \<lparr>fence = 1, hasInitCommands = False, cmdInit = 0, cmdBuf = 3, deleteList = empty_list\<rparr>"
    by (simp add: run_eval)
  then obtain s where r: "run False [BeginRender (Acquired 0)] (new_context 1 2 3 4) = Inr s"
    and q: "cmdQueue s = []" and st: "state s = Recording" and cf: "curFrame s = 0"
    and cb: "current_buffer s = 0"
    and fr: "frame s ! 0 = \<lparr>fence = 1, hasInitCommands = False, cmdInit = 0, cmdBuf = 3, deleteList = empty_list\<rparr>"
    by blast
  have "\<exists>s'. EndSurfaceRenderPass False (QueueBeforeSurfaceRender 11 (QueueBeforeSurfaceRender 10 s)) = Inr s'"
    by (simp add: End_unfold Let_def QueueBeforeSurfaceRender_def st)
  then obtain s' where e: "EndSurfaceRenderPass False (QueueBeforeSurfaceRender 11 (QueueBeforeSurfaceRender 10 s)) = Inr s'"
    by blast
  from queued_before_render_order [OF e]
  have "calls (device s') = calls (device s) @ [vkQueueSubmit [10, 11, 3] 1, vkQueuePresent 0]"
    by (simp add: q cf cb fr cur_slot_0 GetSurfaceCommandBuffer_def)
  with r q e show ?thesis
    by blast
qed

end
